theory Spec2Isabelle
  imports Complex_Main "HOL-Library.Multiset"
begin

section \<open>The breast cancer prediction app (\<^verbatim>\<open>src/deployment/app.py\<close>)\<close>

text \<open>
  The program is one script, run from top to bottom on every interaction. It loads the
  selected model, creates the \<^verbatim>\<open>predictions\<close> table if it is missing, shows the global
  feature importance, reads the 19 inputs of the sidebar and, when the Predict button was
  pressed, predicts, explains the prediction and stores one row.

  Numbers are \<open>float64\<close> in the program and \<^typ>\<open>real\<close> here: the model keeps which
  operands are added and multiplied, not how the result is rounded. An exception of the
  program is a value \<open>Inl e\<close>; the script stops at the first one.
\<close>

subsection \<open>Exceptions\<close>

datatype error =
    KeyError          \<comment> \<open>\<^verbatim>\<open>model_paths[selected_model_name]\<close> on an unknown name\<close>
  | NameError         \<comment> \<open>\<^verbatim>\<open>global_importance\<close> read while unbound\<close>
  | AttributeError    \<comment> \<open>the model lacks \<^verbatim>\<open>coef_\<close>, \<^verbatim>\<open>intercept_\<close> or \<^verbatim>\<open>feature_importances_\<close>\<close>
  | IndexError        \<comment> \<open>\<^verbatim>\<open>a[0]\<close>, \<^verbatim>\<open>a[1]\<close> out of range\<close>
  | ValueError        \<comment> \<open>arrays whose lengths do not fit (DataFrame constructor, \<^verbatim>\<open>np.dot\<close>, broadcasting)\<close>
  | DuplicateTable    \<comment> \<open>\<^verbatim>\<open>CREATE TABLE\<close> of an existing relation without \<^verbatim>\<open>IF NOT EXISTS\<close>\<close>
  | UndefinedTable    \<comment> \<open>\<^verbatim>\<open>INSERT INTO\<close> a missing relation\<close>

definition and_then :: "error + 'a \<Rightarrow> ('a \<Rightarrow> error + 'b) \<Rightarrow> error + 'b" where
  "and_then r f = (case r of Inl e \<Rightarrow> Inl e | Inr x \<Rightarrow> f x)"

definition getattr :: "'a option \<Rightarrow> error + 'a" where
  "getattr a = (case a of None \<Rightarrow> Inl AttributeError | Some v \<Rightarrow> Inr v)"

definition item :: "'a list \<Rightarrow> nat \<Rightarrow> error + 'a" where
  "item xs i = (if i < length xs then Inr (xs ! i) else Inl IndexError)"

subsection \<open>Configuration: model paths and the feature schema\<close>

definition model_paths :: "(string \<times> string) list" where
  "model_paths =
    [(''Logistic Regression'', ''models/logistic_regression.pkl''),
     (''Gradient Boosting'', ''models/gradient_boosting.pkl''),
     (''LightGBM'', ''models/lightgbm.pkl''),
     (''XGBoost'', ''models/xgboost.pkl''),
     (''Catboost'', ''models/catboost.pkl'')]"

definition model_names :: "string list" where
  "model_names = map fst model_paths"

definition features :: "string list" where
  "features =
    [''area_mean'', ''area_se'', ''area_worst'', ''compactness_mean'',
     ''compactness_worst'', ''concave points_mean'', ''concave points_worst'',
     ''concavity_mean'', ''concavity_worst'', ''perimeter_mean'', ''perimeter_se'',
     ''perimeter_worst'', ''radius_mean'', ''radius_se'', ''radius_worst'',
     ''smoothness_worst'', ''symmetry_worst'', ''texture_mean'', ''texture_worst'']"

subsection \<open>The model object\<close>

text \<open>
  The unpickled model is an object of a library; the script reads the attributes below.
  An attribute the object does not have is \<open>None\<close>: reading it raises
  \<open>AttributeError\<close>, and \<^verbatim>\<open>hasattr(model, "predict_proba")\<close> is
  \<open>predict_proba m \<noteq> None\<close>. The two methods take the one-row input frame, given by the
  values of its row in column order. The fields \<open>coef\<close>, \<open>intercept\<close> and
  \<open>feature_importances\<close> are the attributes \<^verbatim>\<open>coef_\<close>, \<^verbatim>\<open>intercept_\<close> and
  \<^verbatim>\<open>feature_importances_\<close> (a name cannot end with an underscore here).
\<close>

record model =
  coef :: "real list list option"
  intercept :: "real list option"
  feature_importances :: "real list option"
  predict :: "real list \<Rightarrow> int list"
  predict_proba :: "(real list \<Rightarrow> real list list) option"

subsection \<open>Array operations of the libraries\<close>

text \<open>\<^verbatim>\<open>pd.DataFrame({...})\<close> of array columns: all of one length, or \<open>ValueError\<close>.\<close>

definition DataFrame2 :: "'a list \<Rightarrow> 'b list \<Rightarrow> error + ('a \<times> 'b) list" where
  "DataFrame2 a b = (if length a = length b then Inr (zip a b) else Inl ValueError)"

definition DataFrame3 :: "'a list \<Rightarrow> 'b list \<Rightarrow> 'c list \<Rightarrow> error + ('a \<times> 'b \<times> 'c) list" where
  "DataFrame3 a b c =
    (if length a = length b \<and> length b = length c then Inr (zip a (zip b c))
     else Inl ValueError)"

definition DataFrame4 ::
  "'a list \<Rightarrow> 'b list \<Rightarrow> 'c list \<Rightarrow> 'd list \<Rightarrow> error + ('a \<times> 'b \<times> 'c \<times> 'd) list" where
  "DataFrame4 a b c d =
    (if length a = length b \<and> length b = length c \<and> length c = length d
     then Inr (zip a (zip b (zip c d)))
     else Inl ValueError)"

text \<open>\<^verbatim>\<open>a * b\<close> on one-dimensional arrays, with broadcasting of a one-element array.\<close>

definition np_multiply :: "real list \<Rightarrow> real list \<Rightarrow> error + real list" where
  "np_multiply a b =
    (if length a = length b then Inr (map2 (*) a b)
     else if length a = 1 then Inr (map (\<lambda>y. hd a * y) b)
     else if length b = 1 then Inr (map (\<lambda>x. x * hd b) a)
     else Inl ValueError)"

text \<open>\<^verbatim>\<open>np.dot(input_df, coefs)\<close>: a frame of one row times a vector is an array of one entry.\<close>

definition np_dot :: "real list \<Rightarrow> real list \<Rightarrow> error + real list" where
  "np_dot row v =
    (if length row = length v then Inr [sum_list (map2 (*) row v)] else Inl ValueError)"




subsection \<open>Global feature importance (lines 68 to 81)\<close>

text \<open>In the functions below, \<open>name\<close> is the script's \<^verbatim>\<open>selected_model_name\<close>.\<close>

definition global_importance :: "string \<Rightarrow> model \<Rightarrow> error + real list" where
  "global_importance name m =
    (if name = ''Logistic Regression'' then
       and_then (getattr (coef m)) (\<lambda>c.
       and_then (item c 0) (\<lambda>c0.
       Inr (map abs c0)))
     else if name \<in> set [''Gradient Boosting'', ''LightGBM'', ''XGBoost'', ''Catboost''] then
       getattr (feature_importances m)
     else Inl NameError)"

type_synonym importance_row = "string \<times> real"

definition Feature :: "string \<times> 'a \<Rightarrow> string" where
  "Feature r = fst r"


definition global_importance_df :: "string \<Rightarrow> model \<Rightarrow> error + importance_row list" where
  "global_importance_df name m =
    and_then (global_importance name m) (\<lambda>gi. DataFrame2 features gi)"

subsection \<open>Sidebar input (lines 96 to 104)\<close>

record session =
  selected_model_name :: string
  joblib_load :: "string \<Rightarrow> model"
  number_input :: "string \<Rightarrow> real"
  button :: "string \<Rightarrow> bool"
  current_timestamp :: nat

definition input_data :: "session \<Rightarrow> (string \<times> real) list" where
  "input_data s = map (\<lambda>feature. (feature, number_input s (''Enter '' @ feature @ '':''))) features"

definition input_df :: "session \<Rightarrow> real list" where
  "input_df s = map snd (input_data s)"

subsection \<open>Prediction (lines 109 to 129)\<close>

record prediction_view =
  prediction_result :: string
  prediction_proba_benign :: "real option"
  prediction_proba_malignant :: "real option"

definition predict_step :: "model \<Rightarrow> real list \<Rightarrow> error + prediction_view" where
  "predict_step m row =
    (let prediction = predict m row;
         prediction_proba = (case predict_proba m of Some f \<Rightarrow> Some (f row) | None \<Rightarrow> None)
     in and_then (item prediction 0) (\<lambda>p0.
        let result = (if p0 = 1 then ''Malignant'' else ''Benign'')
        in case prediction_proba of
             Some pp \<Rightarrow>
               and_then (item pp 0) (\<lambda>pp0.
               and_then (item pp0 0) (\<lambda>benign.
               and_then (item pp0 1) (\<lambda>malignant.
               Inr \<lparr>prediction_result = result,
                    prediction_proba_benign = Some benign,
                    prediction_proba_malignant = Some malignant\<rparr>)))
           | None \<Rightarrow>
               Inr \<lparr>prediction_result = result,
                    prediction_proba_benign = None,
                    prediction_proba_malignant = None\<rparr>))"

subsection \<open>Explanation (lines 131 to 171)\<close>

text \<open>A row of \<^verbatim>\<open>feature_contributions\<close>: Feature, Coefficient or Importance, Value, Contribution.\<close>

type_synonym contribution_row = "string \<times> real \<times> real \<times> real"

definition Weight :: "contribution_row \<Rightarrow> real" where
  "Weight r = fst (snd r)"

definition Value :: "contribution_row \<Rightarrow> real" where
  "Value r = fst (snd (snd r))"

definition Contribution :: "contribution_row \<Rightarrow> real" where
  "Contribution r = snd (snd (snd r))"

record explanation =
  log_odds :: "real list option"
  probability :: "real list option"
  feature_contributions :: "contribution_row list"

definition explain_logistic :: "model \<Rightarrow> real list \<Rightarrow> error + explanation" where
  "explain_logistic m row =
    and_then (getattr (coef m)) (\<lambda>c.
    and_then (item c 0) (\<lambda>coefs.
    and_then (getattr (intercept m)) (\<lambda>ic.
    and_then (item ic 0) (\<lambda>b.
    and_then (np_dot row coefs) (\<lambda>d.
    let lo = map (\<lambda>x. b + x) d;
        pr = map (\<lambda>z. 1 / (1 + exp (- z))) lo
    in and_then (np_multiply coefs row) (\<lambda>contribution.
       and_then (DataFrame4 features coefs row contribution) (\<lambda>fc.
       Inr \<lparr>log_odds = Some lo, probability = Some pr, feature_contributions = fc\<rparr>)))))))"

definition explain_tree :: "model \<Rightarrow> real list \<Rightarrow> error + explanation" where
  "explain_tree m row =
    and_then (getattr (feature_importances m)) (\<lambda>importances.
    and_then (DataFrame3 features importances row) (\<lambda>fc.
    Inr \<lparr>log_odds = None, probability = None,
         feature_contributions = map (\<lambda>(f, i, v). (f, i, v, i * v)) fc\<rparr>))"

definition explain :: "string \<Rightarrow> model \<Rightarrow> real list \<Rightarrow> error + explanation" where
  "explain name m row =
    (if name = ''Logistic Regression'' then explain_logistic m row
     else explain_tree m row)"

subsection \<open>The frames of the two charts (lines 81, 148 and 167)\<close>



subsection \<open>The predictions table (lines 47 to 59 and 174 to 188)\<close>

record prediction_row =
  row_id :: nat
  model_name :: string
  prediction :: string
  proba_benign :: "real option"
  proba_malignant :: "real option"
  input_json :: "(string \<times> real) list"
  created_at :: nat

record table =
  rows :: "prediction_row list"
  id_seq :: nat

text \<open>A database is the list of its relations, by name.\<close>

type_synonym database = "(string \<times> table) list"

definition relation_exists :: "string \<Rightarrow> database \<Rightarrow> bool" where
  "relation_exists name db \<longleftrightarrow> name \<in> set (map fst db)"

definition create_table :: "bool \<Rightarrow> string \<Rightarrow> database \<Rightarrow> error + database" where
  "create_table if_not_exists name db =
    (if relation_exists name db then (if if_not_exists then Inr db else Inl DuplicateTable)
     else Inr (db @ [(name, \<lparr>rows = [], id_seq = 1\<rparr>)]))"

definition ensure_schema :: "database \<Rightarrow> error + database" where
  "ensure_schema db = create_table True ''predictions'' db"

definition insert_row :: "nat \<Rightarrow> string \<Rightarrow> string \<Rightarrow> real option \<Rightarrow> real option \<Rightarrow>
    (string \<times> real) list \<Rightarrow> table \<Rightarrow> table" where
  "insert_row now mn pr pb pm inp t =
    \<lparr>rows = rows t @
        [\<lparr>row_id = id_seq t, model_name = mn, prediction = pr, proba_benign = pb,
          proba_malignant = pm, input_json = inp, created_at = now\<rparr>],
     id_seq = id_seq t + 1\<rparr>"

definition insert_prediction :: "nat \<Rightarrow> string \<Rightarrow> string \<Rightarrow> real option \<Rightarrow> real option \<Rightarrow>
    (string \<times> real) list \<Rightarrow> database \<Rightarrow> error + database" where
  "insert_prediction now mn pr pb pm inp db =
    (if relation_exists ''predictions'' db then
       Inr (map (\<lambda>(n, t). if n = ''predictions'' then (n, insert_row now mn pr pb pm inp t) else (n, t)) db)
     else Inl UndefinedTable)"

text \<open>The rows of the \<^verbatim>\<open>predictions\<close> table, oldest first.\<close>

definition stored_rows :: "database \<Rightarrow> prediction_row list" where
  "stored_rows db = (case map_of db ''predictions'' of None \<Rightarrow> [] | Some t \<Rightarrow> rows t)"

subsection \<open>The script\<close>

record page =
  global_importance_frame :: "importance_row list"
  prediction_shown :: "prediction_view option"
  explanation_shown :: "explanation option"

text \<open>
  The result is the database as of the last commit and either the exception that stopped
  the script or what the page shows. The page holds the two frames as they are built;
  the sorted frames drawn by the charts are \<open>global_importance_df_sorted\<close> and
  \<open>feature_contributions_sorted\<close> above.
  The connection itself (reading the DSN, connecting, closing) and failures inside the
  model's own methods are outside the model; each \<^verbatim>\<open>execute\<close> with its \<^verbatim>\<open>commit\<close> is one
  step on the database.
\<close>

definition predict_and_store ::
  "session \<Rightarrow> model \<Rightarrow> importance_row list \<Rightarrow> database \<Rightarrow> database \<times> (error + page)" where
  "predict_and_store s m gdf db =
    (case predict_step m (input_df s) of
       Inl e \<Rightarrow> (db, Inl e)
     | Inr pv \<Rightarrow>
        (case explain (selected_model_name s) m (input_df s) of
           Inl e \<Rightarrow> (db, Inl e)
         | Inr ex \<Rightarrow>
            (case insert_prediction (current_timestamp s) (selected_model_name s)
                    (prediction_result pv)
                    (case prediction_proba_benign pv of None \<Rightarrow> None | Some p \<Rightarrow> Some p)
                    (case prediction_proba_malignant pv of None \<Rightarrow> None | Some p \<Rightarrow> Some p)
                    (input_data s) db of
               Inl e \<Rightarrow> (db, Inl e)
             | Inr db' \<Rightarrow>
                 (db', Inr \<lparr>global_importance_frame = gdf, prediction_shown = Some pv,
                            explanation_shown = Some ex\<rparr>))))"

definition app :: "session \<Rightarrow> database \<Rightarrow> database \<times> (error + page)" where
  "app s db =
    (case map_of model_paths (selected_model_name s) of
       None \<Rightarrow> (db, Inl KeyError)
     | Some path \<Rightarrow>
        (let m = joblib_load s path in
         case ensure_schema db of
           Inl e \<Rightarrow> (db, Inl e)
         | Inr db1 \<Rightarrow>
            (case global_importance_df (selected_model_name s) m of
               Inl e \<Rightarrow> (db1, Inl e)
             | Inr gdf \<Rightarrow>
                 if button s ''Predict'' then predict_and_store s m gdf db1
                 else (db1, Inr \<lparr>global_importance_frame = gdf, prediction_shown = None,
                                 explanation_shown = None\<rparr>))))"

subsection \<open>Example objects\<close>

definition example_weights :: "real list" where
  "example_weights = [2, - 1, 0, 0, 0, 0, 0, 0, 0, 0, 0, 0, 3, 0, 0, 0, 0, 0, 1 / 2]"

definition example_row :: "real list" where
  "example_row = [1, 2, 0, 0, 0, 0, 0, 0, 0, 0, 0, 0, 1 / 2, 0, 0, 0, 0, 0, 4]"

text \<open>
  A logistic regression model as the library makes them: it predicts 1 when the decision
  value is positive, and its probabilities are the logistic function of that value.
\<close>

definition example_logistic :: model where
  "example_logistic =
    \<lparr>coef = Some [example_weights], intercept = Some [1 / 2], feature_importances = None,
     predict = (\<lambda>row. [if 0 < 1 / 2 + sum_list (map2 (*) row example_weights) then 1 else 0]),
     predict_proba = Some (\<lambda>row.
       [[1 - 1 / (1 + exp (- (1 / 2 + sum_list (map2 (*) row example_weights)))),
         1 / (1 + exp (- (1 / 2 + sum_list (map2 (*) row example_weights))))]])\<rparr>"

text \<open>A tree-based model that offers no \<^verbatim>\<open>predict_proba\<close>.\<close>

definition example_tree :: model where
  "example_tree =
    \<lparr>coef = None, intercept = None, feature_importances = Some (map abs example_weights),
     predict = (\<lambda>row. [0]), predict_proba = None\<rparr>"

text \<open>
  A session with the form left at its defaults (every input 0.0) and the Predict button
  pressed, on a given model name and unpickled model.
\<close>

definition example_session :: "string \<Rightarrow> model \<Rightarrow> session" where
  "example_session name m =
    \<lparr>selected_model_name = name, joblib_load = (\<lambda>path. m), number_input = (\<lambda>label. 0),
     button = (\<lambda>label. True), current_timestamp = 0\<rparr>"

text \<open>A logistic regression model with 18 coefficients against the 19 features.\<close>

definition short_logistic :: model where
  "short_logistic = example_logistic\<lparr>coef := Some [butlast example_weights]\<rparr>"

definition short_session :: session where
  "short_session = example_session ''Logistic Regression'' short_logistic"

definition logistic_session :: session where
  "logistic_session = example_session ''Logistic Regression'' example_logistic"

definition tree_session :: session where
  "tree_session = example_session ''LightGBM'' example_tree"

definition logistic_run_row :: prediction_row where
  "logistic_run_row =
    \<lparr>row_id = 1, model_name = ''Logistic Regression'', prediction = ''Malignant'',
     proba_benign = Some (1 - 1 / (1 + exp (- (1 / 2)))),
     proba_malignant = Some (1 / (1 + exp (- (1 / 2)))),
     input_json = input_data logistic_session, created_at = 0\<rparr>"

definition tree_run_row :: prediction_row where
  "tree_run_row =
    \<lparr>row_id = 1, model_name = ''LightGBM'', prediction = ''Benign'',
     proba_benign = None, proba_malignant = None,
     input_json = input_data tree_session, created_at = 0\<rparr>"

definition logistic_run_explanation :: explanation where
  "logistic_run_explanation =
    \<lparr>log_odds = Some [1 / 2 + sum_list (map2 (*) (input_df logistic_session) example_weights)],
     probability = Some [1 / (1 + exp (- (1 / 2 + sum_list (map2 (*) (input_df logistic_session) example_weights))))],
     feature_contributions = zip features (zip example_weights (zip (input_df logistic_session)
       (map2 (*) example_weights (input_df logistic_session))))\<rparr>"

definition tree_run_explanation :: explanation where
  "tree_run_explanation =
    \<lparr>log_odds = None, probability = None,
     feature_contributions = map (\<lambda>(f, i, v). (f, i, v, i * v))
       (zip features (zip (map abs example_weights) (input_df tree_session)))\<rparr>"

definition logistic_run_prediction :: prediction_view where
  "logistic_run_prediction =
    \<lparr>prediction_result = ''Malignant'',
     prediction_proba_benign = Some (1 - 1 / (1 + exp (- (1 / 2)))),
     prediction_proba_malignant = Some (1 / (1 + exp (- (1 / 2))))\<rparr>"

definition logistic_run_page :: page where
  "logistic_run_page =
    \<lparr>global_importance_frame = zip features (map abs example_weights),
     prediction_shown = Some logistic_run_prediction,
     explanation_shown = Some logistic_run_explanation\<rparr>"

definition tree_run_page :: page where
  "tree_run_page =
    \<lparr>global_importance_frame = zip features (map abs example_weights),
     prediction_shown = Some \<lparr>prediction_result = ''Benign'',
       prediction_proba_benign = None, prediction_proba_malignant = None\<rparr>,
     explanation_shown = Some tree_run_explanation\<rparr>"

subsection \<open>Order among equal scores\<close>







subsection \<open>A model whose probabilities are not the logistic function\<close>



section \<open>Properties\<close>

subsection \<open>Helper facts\<close>

lemma length_features: "length features = 19"
  by (simp add: features_def)

lemma distinct_features: "distinct features"
  by (simp add: features_def)

lemma length_example_weights: "length example_weights = length features"
  by (simp add: example_weights_def features_def)

lemma length_example_row: "length example_row = length features"
  by (simp add: example_row_def features_def)

lemma and_then_simps: "and_then (Inl e) f = Inl e" "and_then (Inr x) f = f x"
  by (simp_all add: and_then_def)

lemma and_then_Inr_iff: "and_then r f = Inr y \<longleftrightarrow> (\<exists>x. r = Inr x \<and> f x = Inr y)"
  by (cases r) (simp_all add: and_then_def)

lemma global_importance_logistic:
  "coef m = Some (w # cs) \<Longrightarrow> global_importance ''Logistic Regression'' m = Inr (map abs w)"
  by (simp add: global_importance_def getattr_def item_def and_then_simps)

lemma global_importance_tree:
  "name \<in> set [''Gradient Boosting'', ''LightGBM'', ''XGBoost'', ''Catboost''] \<Longrightarrow>
   feature_importances m = Some w \<Longrightarrow> global_importance name m = Inr w"
  by (auto simp add: global_importance_def getattr_def)

lemma explain_logistic_eq:
  assumes "coef m = Some (w # cs)" "intercept m = Some (b # bs)"
    "length w = length features" "length row = length features"
  shows "explain_logistic m row =
     Inr \<lparr>log_odds = Some [b + sum_list (map2 (*) row w)],
          probability = Some [1 / (1 + exp (- (b + sum_list (map2 (*) row w))))],
          feature_contributions = zip features (zip w (zip row (map2 (*) w row)))\<rparr>"
  using assms
  by (simp add: explain_logistic_def getattr_def item_def and_then_simps np_dot_def
      np_multiply_def DataFrame4_def Let_def)

lemma explain_tree_eq:
  assumes "feature_importances m = Some w"
    "length w = length features" "length row = length features"
  shows "explain_tree m row =
     Inr \<lparr>log_odds = None, probability = None,
          feature_contributions = map (\<lambda>(f, i, v). (f, i, v, i * v)) (zip features (zip w row))\<rparr>"
  using assms
  by (simp add: explain_tree_def getattr_def and_then_simps DataFrame3_def)

lemma relation_exists_map_of: "relation_exists name db \<longleftrightarrow> map_of db name \<noteq> None"
  by (simp add: relation_exists_def map_of_eq_None_iff)

lemma create_table_plain_twice:
  "create_table False name db = Inr db1 \<Longrightarrow> create_table False name db1 = Inl DuplicateTable"
  by (auto simp add: create_table_def relation_exists_def split: if_splits)

lemma ensure_schema_Inr: "\<exists>db1. ensure_schema db = Inr db1"
  by (simp add: ensure_schema_def create_table_def)

lemma ensure_schema_exists:
  "ensure_schema db = Inr db1 \<Longrightarrow> relation_exists ''predictions'' db1"
  by (auto simp add: ensure_schema_def create_table_def relation_exists_def split: if_splits)

lemma ensure_schema_stored_rows:
  "ensure_schema db = Inr db1 \<Longrightarrow> stored_rows db1 = stored_rows db"
  by (auto simp add: ensure_schema_def create_table_def relation_exists_map_of stored_rows_def
      map_add_def split: if_splits option.splits)

lemma map_of_insert:
  "map_of (map (\<lambda>(n, t). if n = k then (n, f t) else (n, t)) db) k = map_option f (map_of db k)"
  by (induction db) auto

lemma insert_prediction_stored_rows:
  "insert_prediction now mn pr pb pm inp db = Inr db' \<Longrightarrow>
   stored_rows db' = stored_rows db @
     [\<lparr>row_id = (case map_of db ''predictions'' of None \<Rightarrow> 0 | Some t \<Rightarrow> id_seq t),
       model_name = mn, prediction = pr, proba_benign = pb,
       proba_malignant = pm, input_json = inp, created_at = now\<rparr>]"
  by (auto simp add: insert_prediction_def stored_rows_def map_of_insert insert_row_def
      relation_exists_map_of split: if_splits option.splits)

lemma predict_step_cases:
  assumes "predict_step m row = Inr pv"
  shows "prediction_result pv = (if predict m row ! 0 = 1 then ''Malignant'' else ''Benign'') \<and>
         (predict_proba m = None \<longrightarrow>
            prediction_proba_benign pv = None \<and> prediction_proba_malignant pv = None) \<and>
         (\<forall>f. predict_proba m = Some f \<longrightarrow>
            prediction_proba_benign pv = Some (f row ! 0 ! 0) \<and>
            prediction_proba_malignant pv = Some (f row ! 0 ! 1))"
  using assms
  by (auto simp add: predict_step_def Let_def and_then_Inr_iff item_def
      split: option.splits if_splits)

lemma app_success:
  assumes "app s db = (db', Inr pg)" and "button s ''Predict''"
    and "map_of model_paths (selected_model_name s) = Some path"
  shows "\<exists>db1 gdf pv ex.
      ensure_schema db = Inr db1 \<and>
      global_importance_df (selected_model_name s) (joblib_load s path) = Inr gdf \<and>
      predict_step (joblib_load s path) (input_df s) = Inr pv \<and>
      explain (selected_model_name s) (joblib_load s path) (input_df s) = Inr ex \<and>
      insert_prediction (current_timestamp s) (selected_model_name s) (prediction_result pv)
        (prediction_proba_benign pv) (prediction_proba_malignant pv) (input_data s) db1 = Inr db' \<and>
      pg = \<lparr>global_importance_frame = gdf, prediction_shown = Some pv, explanation_shown = Some ex\<rparr>"
proof -
  have opt: "(case x of None \<Rightarrow> None | Some p \<Rightarrow> Some p) = x" for x :: "real option"
    by (cases x) simp_all
  from assms show ?thesis
    by (auto simp add: app_def predict_and_store_def Let_def opt split: sum.splits)
qed



lemma length_input_df: "length (input_df s) = length features"
  by (simp add: input_df_def input_data_def)

lemma tree_names:
  "map_of model_paths name = Some path \<Longrightarrow> name \<noteq> ''Logistic Regression'' \<Longrightarrow>
   name \<in> set [''Gradient Boosting'', ''LightGBM'', ''XGBoost'', ''Catboost'']"
  by (simp add: model_paths_def split: if_splits)

lemma global_importance_df_mismatch:
  assumes "global_importance name m = Inr w" and "length w \<noteq> length features"
  shows "global_importance_df name m = Inl ValueError"
  using assms by (auto simp add: global_importance_df_def and_then_simps DataFrame2_def)

lemma case_option_id: "(case x of None \<Rightarrow> None | Some p \<Rightarrow> Some p) = x"
  by (cases x) simp_all

lemma predict_and_store_rows:
  "stored_rows (fst (predict_and_store s m gdf db1)) = stored_rows db1 \<or>
   (\<exists>pv i. predict_step m (input_df s) = Inr pv \<and>
      stored_rows (fst (predict_and_store s m gdf db1)) = stored_rows db1 @
        [\<lparr>row_id = i, model_name = selected_model_name s, prediction = prediction_result pv,
          proba_benign = prediction_proba_benign pv,
          proba_malignant = prediction_proba_malignant pv,
          input_json = input_data s, created_at = current_timestamp s\<rparr>])"
proof (cases "predict_step m (input_df s)")
  case (Inl e)
  then show ?thesis by (simp add: predict_and_store_def)
next
  case pv: (Inr pv)
  show ?thesis
  proof (cases "explain (selected_model_name s) m (input_df s)")
    case (Inl e)
    with pv show ?thesis by (simp add: predict_and_store_def)
  next
    case ex: (Inr ex)
    show ?thesis
    proof (cases "insert_prediction (current_timestamp s) (selected_model_name s)
        (prediction_result pv) (prediction_proba_benign pv) (prediction_proba_malignant pv)
        (input_data s) db1")
      case (Inl e)
      with pv ex show ?thesis by (simp add: predict_and_store_def case_option_id)
    next
      case (Inr db')
      have "fst (predict_and_store s m gdf db1) = db'"
        using pv ex Inr by (simp add: predict_and_store_def case_option_id)
      with insert_prediction_stored_rows [OF Inr] pv show ?thesis by blast
    qed
  qed
qed

lemma app_rows:
  "stored_rows (fst (app s db)) = stored_rows db \<or>
   (\<exists>path pv i. predict_step (joblib_load s path) (input_df s) = Inr pv \<and>
      stored_rows (fst (app s db)) = stored_rows db @
        [\<lparr>row_id = i, model_name = selected_model_name s, prediction = prediction_result pv,
          proba_benign = prediction_proba_benign pv,
          proba_malignant = prediction_proba_malignant pv,
          input_json = input_data s, created_at = current_timestamp s\<rparr>])"
proof (cases "map_of model_paths (selected_model_name s)")
  case None
  then show ?thesis by (simp add: app_def)
next
  case (Some path)
  obtain db1 where db1: "ensure_schema db = Inr db1"
    using ensure_schema_Inr by blast
  note rows1 = ensure_schema_stored_rows [OF db1]
  show ?thesis
  proof (cases "global_importance_df (selected_model_name s) (joblib_load s path)")
    case (Inl e)
    with Some db1 rows1 show ?thesis by (simp add: app_def)
  next
    case (Inr gdf)
    show ?thesis
    proof (cases "button s ''Predict''")
      case False
      with Some db1 rows1 Inr show ?thesis by (simp add: app_def)
    next
      case True
      have "app s db = predict_and_store s (joblib_load s path) gdf db1"
        using Some db1 Inr True by (simp add: app_def)
      with predict_and_store_rows [of s "joblib_load s path" gdf db1] rows1
      show ?thesis by auto
    qed
  qed
qed

lemma predict_step_both:
  "predict_step m row = Inr pv \<Longrightarrow>
   (prediction_proba_benign pv = None \<longleftrightarrow> prediction_proba_malignant pv = None)"
  by (auto simp add: predict_step_def Let_def and_then_Inr_iff split: option.splits)

lemma app_success_rows:
  assumes "app s db = (db', Inr pg)" and "button s ''Predict''"
    and "map_of model_paths (selected_model_name s) = Some path"
  shows "\<exists>pv ex gdf i.
      predict_step (joblib_load s path) (input_df s) = Inr pv \<and>
      pg = \<lparr>global_importance_frame = gdf, prediction_shown = Some pv, explanation_shown = Some ex\<rparr> \<and>
      stored_rows db' = stored_rows db @
        [\<lparr>row_id = i, model_name = selected_model_name s, prediction = prediction_result pv,
          proba_benign = prediction_proba_benign pv,
          proba_malignant = prediction_proba_malignant pv,
          input_json = input_data s, created_at = current_timestamp s\<rparr>]"
proof -
  from app_success [OF assms] obtain db1 gdf pv ex where
    h: "ensure_schema db = Inr db1"
      "predict_step (joblib_load s path) (input_df s) = Inr pv"
      "insert_prediction (current_timestamp s) (selected_model_name s) (prediction_result pv)
        (prediction_proba_benign pv) (prediction_proba_malignant pv) (input_data s) db1 = Inr db'"
      "pg = \<lparr>global_importance_frame = gdf, prediction_shown = Some pv, explanation_shown = Some ex\<rparr>"
    by blast
  show ?thesis
    using h(2,4) insert_prediction_stored_rows [OF h(3)] ensure_schema_stored_rows [OF h(1)]
    by auto
qed

lemma logistic_session_simps:
  "selected_model_name logistic_session = ''Logistic Regression''"
  "joblib_load logistic_session path = example_logistic"
  "button logistic_session label = True"
  "current_timestamp logistic_session = 0"
  by (simp_all add: logistic_session_def example_session_def)

lemma tree_session_simps:
  "selected_model_name tree_session = ''LightGBM''"
  "joblib_load tree_session path = example_tree"
  "button tree_session label = True"
  "current_timestamp tree_session = 0"
  by (simp_all add: tree_session_def example_session_def)

lemma default_decision_value:
  "sum_list (map2 (*) (input_df logistic_session) example_weights) = 0"
  by (simp add: input_df_def input_data_def features_def example_weights_def
      logistic_session_def example_session_def)

lemma predict_step_example_logistic:
  "predict_step example_logistic (input_df logistic_session) = Inr logistic_run_prediction"
  by (simp add: predict_step_def example_logistic_def item_def and_then_simps
      default_decision_value logistic_run_prediction_def)

lemma predict_step_example_tree:
  "predict_step example_tree row = Inr \<lparr>prediction_result = ''Benign'',
       prediction_proba_benign = None, prediction_proba_malignant = None\<rparr>"
  by (simp add: predict_step_def example_tree_def item_def and_then_simps)

lemma ensure_schema_empty: "ensure_schema [] = Inr [(''predictions'', \<lparr>rows = [], id_seq = 1\<rparr>)]"
  by (simp add: ensure_schema_def create_table_def relation_exists_def)

lemma insert_prediction_fresh:
  "insert_prediction now mn pr pb pm inp [(''predictions'', t)] =
   Inr [(''predictions'', insert_row now mn pr pb pm inp t)]"
  by (simp add: insert_prediction_def relation_exists_def)

lemma app_logistic_session:
  "app logistic_session [] =
     ([(''predictions'', \<lparr>rows = [logistic_run_row], id_seq = 2\<rparr>)], Inr logistic_run_page)"
proof -
  have p: "map_of model_paths ''Logistic Regression'' = Some ''models/logistic_regression.pkl''"
    by (simp add: model_paths_def)
  have c: "coef example_logistic = Some (example_weights # [])"
    and i: "intercept example_logistic = Some (1 / 2 # [])"
    by (simp_all add: example_logistic_def)
  have g: "global_importance_df ''Logistic Regression'' example_logistic =
      Inr (zip features (map abs example_weights))"
    using c length_example_weights
    by (simp add: global_importance_df_def global_importance_logistic and_then_simps DataFrame2_def)
  have e: "explain ''Logistic Regression'' example_logistic (input_df logistic_session) =
      Inr logistic_run_explanation"
    using explain_logistic_eq [OF c i length_example_weights length_input_df [of logistic_session]]
    by (simp add: explain_def logistic_run_explanation_def)
  show ?thesis
    by (simp add: app_def predict_and_store_def logistic_session_simps p g e
        ensure_schema_empty predict_step_example_logistic insert_prediction_fresh
        insert_row_def logistic_run_row_def logistic_run_page_def logistic_run_prediction_def)
qed

lemma app_tree_session:
  "app tree_session [] =
     ([(''predictions'', \<lparr>rows = [tree_run_row], id_seq = 2\<rparr>)], Inr tree_run_page)"
proof -
  have p: "map_of model_paths ''LightGBM'' = Some ''models/lightgbm.pkl''"
    by (simp add: model_paths_def)
  have f: "feature_importances example_tree = Some (map abs example_weights)"
    by (simp add: example_tree_def)
  have l: "length (map abs example_weights) = length features"
    by (simp add: length_example_weights)
  have n: "''LightGBM'' \<in> set [''Gradient Boosting'', ''LightGBM'', ''XGBoost'', ''Catboost'']"
    by simp
  have g: "global_importance_df ''LightGBM'' example_tree =
      Inr (zip features (map abs example_weights))"
    using l by (simp add: global_importance_df_def global_importance_tree [OF n f]
        and_then_simps DataFrame2_def)
  have e: "explain ''LightGBM'' example_tree (input_df tree_session) =
      Inr tree_run_explanation"
    using explain_tree_eq [OF f l length_input_df [of tree_session]]
    by (simp add: explain_def tree_run_explanation_def)
  show ?thesis
    by (simp add: app_def predict_and_store_def tree_session_simps p g e
        ensure_schema_empty predict_step_example_tree insert_prediction_fresh
        insert_row_def tree_run_row_def tree_run_page_def)
qed


















subsection \<open>Local contribution, logistic regression\<close>

text \<open>
  Claim C1. For a logistic regression model (a first coefficient row \<open>w\<close> and an intercept,
  \<open>w\<close> as long as the feature schema) and an input row as long as the schema, the
  explanation succeeds, its frame has one row per schema feature in schema order, and the
  Contribution of feature \<open>i\<close> is \<open>w ! i * row ! i\<close>: the signed product, with no absolute
  value taken.
\<close>

theorem logistic_local_contribution:
  assumes "coef m = Some (w # cs)" and "intercept m = Some (b # bs)"
    and "length w = length features" and "length row = length features"
  shows "\<exists>ex. explain ''Logistic Regression'' m row = Inr ex \<and>
           length (feature_contributions ex) = length features \<and>
           (\<forall>i < length features.
              Feature (feature_contributions ex ! i) = features ! i \<and>
              Contribution (feature_contributions ex ! i) = w ! i * row ! i)"
  using assms
  by (simp add: explain_def explain_logistic_eq Feature_def Contribution_def)

theorem logistic_local_contribution_witness:
  "coef example_logistic = Some (example_weights # []) \<and>
   intercept example_logistic = Some (1 / 2 # []) \<and>
   length example_weights = length features \<and>
   length example_row = length features \<and>
   (\<exists>ex. explain ''Logistic Regression'' example_logistic example_row = Inr ex \<and>
      length (feature_contributions ex) = length features \<and>
      (\<forall>i < length features.
         Feature (feature_contributions ex ! i) = features ! i \<and>
         Contribution (feature_contributions ex ! i) = example_weights ! i * example_row ! i)) \<and>
   example_weights ! 1 * example_row ! 1 = - 2"
proof -
  have h1: "coef example_logistic = Some (example_weights # [])"
    by (simp add: example_logistic_def)
  have h2: "intercept example_logistic = Some (1 / 2 # [])"
    by (simp add: example_logistic_def)
  have neg: "example_weights ! 1 * example_row ! 1 = - 2"
    by (simp add: example_weights_def example_row_def)
  from logistic_local_contribution [OF h1 h2 length_example_weights length_example_row]
  show ?thesis
    using h1 h2 length_example_weights length_example_row neg by blast
qed

subsection \<open>Local contribution, tree-based models\<close>

text \<open>
  Claim C5. For any other model name (the branch of the tree-based models), importances
  \<open>w\<close> as long as the feature schema and an input row as long as the schema, the
  explanation succeeds, its frame has one row per schema feature in schema order, the
  Contribution of feature \<open>i\<close> is exactly \<open>w ! i * row ! i\<close>, and it is not negative when
  neither \<open>w ! i\<close> nor \<open>row ! i\<close> is.
\<close>

theorem tree_local_contribution:
  assumes "name \<noteq> ''Logistic Regression''" and "feature_importances m = Some w"
    and "length w = length features" and "length row = length features"
  shows "\<exists>ex. explain name m row = Inr ex \<and>
           length (feature_contributions ex) = length features \<and>
           (\<forall>i < length features.
              Feature (feature_contributions ex ! i) = features ! i \<and>
              Contribution (feature_contributions ex ! i) = w ! i * row ! i \<and>
              (0 \<le> w ! i \<and> 0 \<le> row ! i \<longrightarrow> 0 \<le> Contribution (feature_contributions ex ! i)))"
  using assms
  by (simp add: explain_def explain_tree_eq Feature_def Contribution_def)

theorem tree_local_contribution_witness:
  "''XGBoost'' \<noteq> ''Logistic Regression'' \<and>
   feature_importances example_tree = Some (map abs example_weights) \<and>
   length (map abs example_weights) = length features \<and>
   length example_row = length features \<and>
   (0::nat) < length features \<and>
   0 \<le> map abs example_weights ! 0 \<and> 0 \<le> example_row ! 0 \<and>
   (\<exists>ex. explain ''XGBoost'' example_tree example_row = Inr ex \<and>
      length (feature_contributions ex) = length features \<and>
      (\<forall>i < length features.
         Feature (feature_contributions ex ! i) = features ! i \<and>
         Contribution (feature_contributions ex ! i) = map abs example_weights ! i * example_row ! i \<and>
         (0 \<le> map abs example_weights ! i \<and> 0 \<le> example_row ! i \<longrightarrow>
            0 \<le> Contribution (feature_contributions ex ! i))))"
proof -
  have h1: "''XGBoost'' \<noteq> ''Logistic Regression''"
    by simp
  have h2: "feature_importances example_tree = Some (map abs example_weights)"
    by (simp add: example_tree_def)
  have h3: "length (map abs example_weights) = length features"
    by (simp add: length_example_weights)
  have h4: "(0::nat) < length features"
    by (simp add: length_features)
  have h5: "0 \<le> map abs example_weights ! 0 \<and> 0 \<le> example_row ! 0"
    by (simp add: example_weights_def example_row_def)
  from tree_local_contribution [OF h1 h2 h3 length_example_row]
  show ?thesis
    using h1 h2 h3 h4 h5 length_example_row by blast
qed

subsection \<open>Global importance\<close>

text \<open>
  Claim C6. For the logistic regression model the Importance column of the global frame is
  the absolute value of the first coefficient row, feature by feature in schema order; for
  the four tree-based model names it is the model's \<^verbatim>\<open>feature_importances_\<close> as they are.
\<close>

theorem global_importance_scores:
  assumes "length w = length features"
  shows "(coef m = Some (w # cs) \<longrightarrow>
           global_importance_df ''Logistic Regression'' m = Inr (zip features (map abs w))) \<and>
         (name \<in> set [''Gradient Boosting'', ''LightGBM'', ''XGBoost'', ''Catboost''] \<and>
          feature_importances m = Some w \<longrightarrow>
           global_importance_df name m = Inr (zip features w))"
  using assms
  by (auto simp add: global_importance_df_def global_importance_logistic global_importance_tree
      and_then_simps DataFrame2_def simp del: set_simps)

theorem global_importance_scores_witness:
  "length example_weights = length features \<and>
   coef example_logistic = Some (example_weights # []) \<and>
   global_importance_df ''Logistic Regression'' example_logistic =
     Inr (zip features (map abs example_weights)) \<and>
   map abs example_weights ! 1 = 1 \<and>
   ''Catboost'' \<in> set [''Gradient Boosting'', ''LightGBM'', ''XGBoost'', ''Catboost''] \<and>
   feature_importances (example_tree\<lparr>feature_importances := Some example_weights\<rparr>) =
     Some example_weights \<and>
   global_importance_df ''Catboost'' (example_tree\<lparr>feature_importances := Some example_weights\<rparr>) =
     Inr (zip features example_weights)"
proof -
  have h1: "coef example_logistic = Some (example_weights # [])"
    by (simp add: example_logistic_def)
  have h2: "''Catboost'' \<in> set [''Gradient Boosting'', ''LightGBM'', ''XGBoost'', ''Catboost'']"
    by simp
  have h3: "feature_importances (example_tree\<lparr>feature_importances := Some example_weights\<rparr>) =
      Some example_weights"
    by simp
  have h4: "map abs example_weights ! 1 = 1"
    by (simp add: example_weights_def)
  from global_importance_scores [OF length_example_weights, of example_logistic "[]" "''Catboost''"]
    global_importance_scores [OF length_example_weights,
      of "example_tree\<lparr>feature_importances := Some example_weights\<rparr>" "[]" "''Catboost''"]
  show ?thesis
    using h1 h2 h3 h4 length_example_weights by blast
qed

subsection \<open>Length mismatch\<close>

text \<open>
  Claim C4. When the selected model's importance source (the first coefficient row for
  logistic regression, \<^verbatim>\<open>feature_importances_\<close> for the other names) is not as long as
  the feature schema, building the global importance frame raises: the script stops there
  with \<open>ValueError\<close>, the exception by which the program reports arrays of different
  lengths, and stores no row. The explanation step of lines 131 to 171, had it been
  reached, raises the same exception.
\<close>

theorem dimension_mismatch:
  assumes "map_of model_paths (selected_model_name s) = Some path"
    and "m = joblib_load s path"
    and "(selected_model_name s = ''Logistic Regression'' \<and> coef m = Some (w # cs)) \<or>
         (selected_model_name s \<noteq> ''Logistic Regression'' \<and> feature_importances m = Some w)"
    and "length w \<noteq> length features"
  shows "global_importance_df (selected_model_name s) m = Inl ValueError \<and>
         snd (app s db) = Inl ValueError \<and>
         stored_rows (fst (app s db)) = stored_rows db \<and>
         (selected_model_name s \<noteq> ''Logistic Regression'' \<or> (\<exists>b bs. intercept m = Some (b # bs)) \<longrightarrow>
            explain (selected_model_name s) m (input_df s) = Inl ValueError)"
proof -
  have gi: "global_importance (selected_model_name s) m = Inr (if selected_model_name s = ''Logistic Regression'' then map abs w else w)"
    using assms(1,3) global_importance_logistic [of m w cs]
      global_importance_tree [OF tree_names, of "selected_model_name s" path m w]
    by auto
  have len: "length (if selected_model_name s = ''Logistic Regression'' then map abs w else w) \<noteq> length features"
    using assms(4) by simp
  have g: "global_importance_df (selected_model_name s) m = Inl ValueError"
    by (rule global_importance_df_mismatch [OF gi len])
  obtain db1 where db1: "ensure_schema db = Inr db1"
    using ensure_schema_Inr by blast
  have a: "app s db = (db1, Inl ValueError)"
    using assms(1,2) g db1 by (simp add: app_def)
  have e: "explain (selected_model_name s) m (input_df s) = Inl ValueError"
    if "selected_model_name s \<noteq> ''Logistic Regression'' \<or> (\<exists>b bs. intercept m = Some (b # bs))"
    using that assms(3,4) length_input_df [of s]
    by (auto simp add: explain_def explain_logistic_def explain_tree_def getattr_def item_def
        and_then_simps np_dot_def DataFrame3_def)
  show ?thesis
    using g a e ensure_schema_stored_rows [OF db1] by simp
qed

theorem dimension_mismatch_witness:
  "map_of model_paths (selected_model_name short_session) = Some ''models/logistic_regression.pkl'' \<and>
   short_logistic = joblib_load short_session ''models/logistic_regression.pkl'' \<and>
   selected_model_name short_session = ''Logistic Regression'' \<and>
   coef short_logistic = Some (butlast example_weights # []) \<and>
   length (butlast example_weights) = 18 \<and>
   length (butlast example_weights) \<noteq> length features \<and>
   intercept short_logistic = Some (1 / 2 # []) \<and>
   global_importance_df (selected_model_name short_session) short_logistic = Inl ValueError \<and>
   snd (app short_session []) = Inl ValueError \<and>
   stored_rows (fst (app short_session [])) = stored_rows [] \<and>
   explain (selected_model_name short_session) short_logistic (input_df short_session) = Inl ValueError"
proof -
  have h1: "map_of model_paths (selected_model_name short_session) =
      Some ''models/logistic_regression.pkl''"
    by (simp add: short_session_def example_session_def model_paths_def)
  have h2: "short_logistic = joblib_load short_session ''models/logistic_regression.pkl''"
    by (simp add: short_session_def example_session_def)
  have h3: "selected_model_name short_session = ''Logistic Regression''"
    by (simp add: short_session_def example_session_def)
  have h4: "coef short_logistic = Some (butlast example_weights # [])"
    by (simp add: short_logistic_def)
  have h5: "length (butlast example_weights) = 18"
    by (simp add: example_weights_def)
  have h6: "length (butlast example_weights) \<noteq> length features"
    unfolding h5 length_features by simp
  have h7: "intercept short_logistic = Some (1 / 2 # [])"
    by (simp add: short_logistic_def example_logistic_def)
  from dimension_mismatch [OF h1 h2 _ h6, of "[]" "[]"] h3 h4 h7
  show ?thesis
    using h1 h2 h5 h6 by blast
qed

subsection \<open>Probabilities and the stored row\<close>

text \<open>
  Claim C7. In a run that completes a prediction request, the page shows a prediction and
  one row is appended to the table. When the model has no \<^verbatim>\<open>predict_proba\<close>, both
  probabilities of the prediction are absent and both probability fields of the stored row
  are null; when it has one, all four are present.
\<close>

theorem probabilities_absent_or_present:
  assumes "app s db = (db', Inr pg)" and "button s ''Predict''"
    and "map_of model_paths (selected_model_name s) = Some path"
  shows "\<exists>pv r. prediction_shown pg = Some pv \<and> stored_rows db' = stored_rows db @ [r] \<and>
     (predict_proba (joblib_load s path) = None \<longrightarrow>
        prediction_proba_benign pv = None \<and> prediction_proba_malignant pv = None \<and>
        proba_benign r = None \<and> proba_malignant r = None) \<and>
     (predict_proba (joblib_load s path) \<noteq> None \<longrightarrow>
        prediction_proba_benign pv \<noteq> None \<and> prediction_proba_malignant pv \<noteq> None \<and>
        proba_benign r \<noteq> None \<and> proba_malignant r \<noteq> None)"
proof -
  from app_success_rows [OF assms] obtain pv ex gdf i where
    h: "predict_step (joblib_load s path) (input_df s) = Inr pv"
      "pg = \<lparr>global_importance_frame = gdf, prediction_shown = Some pv, explanation_shown = Some ex\<rparr>"
      "stored_rows db' = stored_rows db @
        [\<lparr>row_id = i, model_name = selected_model_name s, prediction = prediction_result pv,
          proba_benign = prediction_proba_benign pv,
          proba_malignant = prediction_proba_malignant pv,
          input_json = input_data s, created_at = current_timestamp s\<rparr>]"
    by blast
  show ?thesis
    using h predict_step_cases [OF h(1)] by auto
qed

theorem probabilities_absent_or_present_witness:
  "app logistic_session [] =
     ([(''predictions'', \<lparr>rows = [logistic_run_row], id_seq = 2\<rparr>)], Inr logistic_run_page) \<and>
   button logistic_session ''Predict'' \<and>
   map_of model_paths (selected_model_name logistic_session) = Some ''models/logistic_regression.pkl'' \<and>
   predict_proba (joblib_load logistic_session ''models/logistic_regression.pkl'') \<noteq> None \<and>
   (\<exists>pv r. prediction_shown logistic_run_page = Some pv \<and>
      stored_rows [(''predictions'', \<lparr>rows = [logistic_run_row], id_seq = 2\<rparr>)] = stored_rows [] @ [r] \<and>
      prediction_proba_benign pv \<noteq> None \<and> prediction_proba_malignant pv \<noteq> None \<and>
      proba_benign r \<noteq> None \<and> proba_malignant r \<noteq> None) \<and>
   app tree_session [] =
     ([(''predictions'', \<lparr>rows = [tree_run_row], id_seq = 2\<rparr>)], Inr tree_run_page) \<and>
   button tree_session ''Predict'' \<and>
   map_of model_paths (selected_model_name tree_session) = Some ''models/lightgbm.pkl'' \<and>
   predict_proba (joblib_load tree_session ''models/lightgbm.pkl'') = None \<and>
   (\<exists>pv r. prediction_shown tree_run_page = Some pv \<and>
      stored_rows [(''predictions'', \<lparr>rows = [tree_run_row], id_seq = 2\<rparr>)] = stored_rows [] @ [r] \<and>
      prediction_proba_benign pv = None \<and> prediction_proba_malignant pv = None \<and>
      proba_benign r = None \<and> proba_malignant r = None)"
proof -
  have b1: "button logistic_session ''Predict''"
    by (simp add: logistic_session_simps)
  have p1: "map_of model_paths (selected_model_name logistic_session) =
      Some ''models/logistic_regression.pkl''"
    by (simp add: logistic_session_simps model_paths_def)
  have a1: "predict_proba (joblib_load logistic_session ''models/logistic_regression.pkl'') \<noteq> None"
    by (simp add: logistic_session_simps example_logistic_def)
  have b2: "button tree_session ''Predict''"
    by (simp add: tree_session_simps)
  have p2: "map_of model_paths (selected_model_name tree_session) = Some ''models/lightgbm.pkl''"
    by (simp add: tree_session_simps model_paths_def)
  have a2: "predict_proba (joblib_load tree_session ''models/lightgbm.pkl'') = None"
    by (simp add: tree_session_simps example_tree_def)
  from probabilities_absent_or_present [OF app_logistic_session b1 p1]
    probabilities_absent_or_present [OF app_tree_session b2 p2]
  show ?thesis
    using app_logistic_session app_tree_session b1 p1 a1 b2 p2 a2 by blast
qed

subsection \<open>The label text\<close>

text \<open>
  Claim C9. In a run that completes a prediction request, the prediction array is not
  empty and the label shown, which is also the label stored, is \<open>''Malignant''\<close> when its
  first entry is 1 and \<open>''Benign''\<close> for every other value.
\<close>

theorem prediction_label:
  assumes "app s db = (db', Inr pg)" and "button s ''Predict''"
    and "map_of model_paths (selected_model_name s) = Some path"
  shows "\<exists>pv r. prediction_shown pg = Some pv \<and> stored_rows db' = stored_rows db @ [r] \<and>
     prediction r = prediction_result pv \<and>
     predict (joblib_load s path) (input_df s) \<noteq> [] \<and>
     prediction_result pv =
       (if predict (joblib_load s path) (input_df s) ! 0 = 1 then ''Malignant'' else ''Benign'')"
proof -
  from app_success_rows [OF assms] obtain pv ex gdf i where
    h: "predict_step (joblib_load s path) (input_df s) = Inr pv"
      "pg = \<lparr>global_importance_frame = gdf, prediction_shown = Some pv, explanation_shown = Some ex\<rparr>"
      "stored_rows db' = stored_rows db @
        [\<lparr>row_id = i, model_name = selected_model_name s, prediction = prediction_result pv,
          proba_benign = prediction_proba_benign pv,
          proba_malignant = prediction_proba_malignant pv,
          input_json = input_data s, created_at = current_timestamp s\<rparr>]"
    by blast
  have ne: "predict (joblib_load s path) (input_df s) \<noteq> []"
    using h(1) by (auto simp add: predict_step_def Let_def and_then_Inr_iff item_def split: if_splits)
  show ?thesis
    using h ne predict_step_cases [OF h(1)] by auto
qed

theorem prediction_label_witness:
  "app logistic_session [] =
     ([(''predictions'', \<lparr>rows = [logistic_run_row], id_seq = 2\<rparr>)], Inr logistic_run_page) \<and>
   button logistic_session ''Predict'' \<and>
   map_of model_paths (selected_model_name logistic_session) = Some ''models/logistic_regression.pkl'' \<and>
   predict (joblib_load logistic_session ''models/logistic_regression.pkl'')
     (input_df logistic_session) = [1] \<and>
   (\<exists>pv r. prediction_shown logistic_run_page = Some pv \<and>
      stored_rows [(''predictions'', \<lparr>rows = [logistic_run_row], id_seq = 2\<rparr>)] = stored_rows [] @ [r] \<and>
      prediction r = prediction_result pv \<and> prediction_result pv = ''Malignant'') \<and>
   app tree_session [] =
     ([(''predictions'', \<lparr>rows = [tree_run_row], id_seq = 2\<rparr>)], Inr tree_run_page) \<and>
   button tree_session ''Predict'' \<and>
   map_of model_paths (selected_model_name tree_session) = Some ''models/lightgbm.pkl'' \<and>
   predict (joblib_load tree_session ''models/lightgbm.pkl'') (input_df tree_session) = [0] \<and>
   (\<exists>pv r. prediction_shown tree_run_page = Some pv \<and>
      stored_rows [(''predictions'', \<lparr>rows = [tree_run_row], id_seq = 2\<rparr>)] = stored_rows [] @ [r] \<and>
      prediction r = prediction_result pv \<and> prediction_result pv = ''Benign'')"
proof -
  have b1: "button logistic_session ''Predict''"
    by (simp add: logistic_session_simps)
  have p1: "map_of model_paths (selected_model_name logistic_session) =
      Some ''models/logistic_regression.pkl''"
    by (simp add: logistic_session_simps model_paths_def)
  have v1: "predict (joblib_load logistic_session ''models/logistic_regression.pkl'')
      (input_df logistic_session) = [1]"
    by (simp add: logistic_session_simps example_logistic_def default_decision_value)
  have b2: "button tree_session ''Predict''"
    by (simp add: tree_session_simps)
  have p2: "map_of model_paths (selected_model_name tree_session) = Some ''models/lightgbm.pkl''"
    by (simp add: tree_session_simps model_paths_def)
  have v2: "predict (joblib_load tree_session ''models/lightgbm.pkl'') (input_df tree_session) = [0]"
    by (simp add: tree_session_simps example_tree_def)
  have l1: "\<exists>pv r. prediction_shown logistic_run_page = Some pv \<and>
      stored_rows [(''predictions'', \<lparr>rows = [logistic_run_row], id_seq = 2\<rparr>)] = stored_rows [] @ [r] \<and>
      prediction r = prediction_result pv \<and> prediction_result pv = ''Malignant''"
    using prediction_label [OF app_logistic_session b1 p1] v1 by auto
  have l2: "\<exists>pv r. prediction_shown tree_run_page = Some pv \<and>
      stored_rows [(''predictions'', \<lparr>rows = [tree_run_row], id_seq = 2\<rparr>)] = stored_rows [] @ [r] \<and>
      prediction r = prediction_result pv \<and> prediction_result pv = ''Benign''"
    using prediction_label [OF app_tree_session b2 p2] v2 by auto
  show ?thesis
    using app_logistic_session app_tree_session b1 p1 v1 b2 p2 v2 l1 l2 by blast
qed

subsection \<open>The two probability fields go together\<close>

text \<open>
  Claim C10. Every row that a run of the script adds to the table has its two probability
  fields both null or both present.
\<close>

theorem probability_fields_both_or_neither:
  assumes "r \<in> set (stored_rows (fst (app s db)))" and "r \<notin> set (stored_rows db)"
  shows "proba_benign r = None \<longleftrightarrow> proba_malignant r = None"
  using assms app_rows [of s db] predict_step_both
  by auto

theorem probability_fields_both_or_neither_witness:
  "logistic_run_row \<in> set (stored_rows (fst (app logistic_session []))) \<and>
   logistic_run_row \<notin> set (stored_rows []) \<and>
   (proba_benign logistic_run_row = None \<longleftrightarrow> proba_malignant logistic_run_row = None) \<and>
   proba_benign logistic_run_row \<noteq> None"
proof -
  have h1: "logistic_run_row \<in> set (stored_rows (fst (app logistic_session [])))"
    by (simp add: app_logistic_session stored_rows_def)
  have h2: "logistic_run_row \<notin> set (stored_rows [])"
    by (simp add: stored_rows_def)
  have h3: "proba_benign logistic_run_row \<noteq> None"
    by (simp add: logistic_run_row_def)
  from probability_fields_both_or_neither [OF h1 h2]
  show ?thesis
    using h1 h2 h3 by blast
qed

subsection \<open>Creating the table\<close>

text \<open>
  Claim C8. \<^verbatim>\<open>CREATE TABLE IF NOT EXISTS predictions\<close> never raises; run a second time on
  the database it produced, it raises nothing and changes nothing; and the database it
  produces has one relation named \<^verbatim>\<open>predictions\<close> where there was none, and as many as
  before otherwise.
\<close>

theorem ensure_schema_idempotent:
  "\<exists>db1. ensure_schema db = Inr db1 \<and> ensure_schema db1 = Inr db1 \<and>
     length (filter (\<lambda>r. fst r = ''predictions'') db1) =
       max 1 (length (filter (\<lambda>r. fst r = ''predictions'') db))"
proof (cases "relation_exists ''predictions'' db")
  case True
  then have "filter (\<lambda>r. fst r = ''predictions'') db \<noteq> []"
    by (force simp add: relation_exists_def filter_empty_conv)
  then have "1 \<le> length (filter (\<lambda>r. fst r = ''predictions'') db)"
    by (cases "filter (\<lambda>r. fst r = ''predictions'') db") simp_all
  with True show ?thesis
    by (simp add: ensure_schema_def create_table_def)
next
  case False
  then have "filter (\<lambda>r. fst r = ''predictions'') db = []"
    by (force simp add: relation_exists_def filter_empty_conv)
  with False show ?thesis
    by (simp add: ensure_schema_def create_table_def relation_exists_def)
qed

subsection \<open>Log-odds and probability of the logistic explanation\<close>




subsection \<open>Order of the two charts\<close>




end
